theory Spec2Isabelle
  imports Main "HOL-Library.Sublist"
begin

section \<open>The stop hook of loop agents (\<^verbatim>\<open>.claude-plugin/hooks/loop-stop-gate.py\<close>)\<close>

text \<open>
  The hook is one Python process: it reads a JSON document from standard input, looks at
  three environment variables, may run \<^verbatim>\<open>git status --porcelain\<close> once, may print
  one JSON object, and exits. The model below follows \<^verbatim>\<open>get_env\<close>,
  \<^verbatim>\<open>run_command\<close> and \<^verbatim>\<open>main\<close> line by line. What the process cannot
  compute by itself (the text on standard input, the environment, the current directory,
  what the child process does) is collected in a record \<open>world\<close>; what it leaves
  behind (exit status, printed text, child processes started) in a record \<open>outcome\<close>.

  Python \<^verbatim>\<open>str\<close> values are modelled as \<^typ>\<open>string\<close>, one \<^typ>\<open>char\<close> per
  code point, so the model covers text whose code points are below 256.
\<close>

subsection \<open>Python values and exceptions\<close>

text \<open>
  A Python float as far as the hook can tell floats apart: it only ever asks whether a
  value is truthy, and a float is falsy exactly when it is zero. \<open>Finite m e\<close> stands
  for \<open>m * 2 ^ e\<close>; \<^verbatim>\<open>json.load\<close> also accepts \<^verbatim>\<open>NaN\<close> and
  \<^verbatim>\<open>Infinity\<close>.
\<close>

datatype pyfloat = Finite int int | Infinity | NegInfinity | NaN

text \<open>
  The values \<^verbatim>\<open>json.load\<close> returns. \<open>JObject\<close> lists the items of the
  resulting \<^verbatim>\<open>dict\<close>, whose keys are distinct.
\<close>

datatype json =
    JNull
  | JBool bool
  | JInt int
  | JFloat pyfloat
  | JString string
  | JArray "json list"
  | JObject "(string \<times> json) list"

text \<open>
  The exceptions that reach the hook's code. \<open>AttributeError t a\<close>: an object of type
  \<open>t\<close> has no attribute \<open>a\<close>. \<open>TimeoutExpired cmd timeout\<close> as
  \<^verbatim>\<open>subprocess.run\<close> raises it. \<open>FileNotFoundError strerror filename\<close> is the
  \<^verbatim>\<open>OSError\<close> with errno 2. \<open>OtherError c\<close> is any other exception, of class
  \<open>c\<close> (\<^verbatim>\<open>PermissionError\<close>, \<^verbatim>\<open>RecursionError\<close>, ...).
\<close>

datatype exn =
    JSONDecodeError
  | AttributeError string string
  | TimeoutExpired "string list" int
  | FileNotFoundError string "string option"
  | OtherError string

abbreviation NL :: string where
  "NL \<equiv> [CHR 0x0A]"

text \<open>Truthiness, as \<^verbatim>\<open>if x:\<close> and \<^verbatim>\<open>not x\<close> decide it.\<close>

fun float_is_zero :: "pyfloat \<Rightarrow> bool" where
  "float_is_zero (Finite m e) = (m = 0)"
| "float_is_zero Infinity = False"
| "float_is_zero NegInfinity = False"
| "float_is_zero NaN = False"

fun truthy :: "json \<Rightarrow> bool" where
  "truthy JNull = False"
| "truthy (JBool b) = b"
| "truthy (JInt n) = (n \<noteq> 0)"
| "truthy (JFloat f) = (\<not> float_is_zero f)"
| "truthy (JString s) = (s \<noteq> [])"
| "truthy (JArray xs) = (xs \<noteq> [])"
| "truthy (JObject kvs) = (kvs \<noteq> [])"

definition truthy_str :: "string \<Rightarrow> bool" where
  "truthy_str s = (s \<noteq> [])"

fun type_name :: "json \<Rightarrow> string" where
  "type_name JNull = ''NoneType''"
| "type_name (JBool b) = ''bool''"
| "type_name (JInt n) = ''int''"
| "type_name (JFloat f) = ''float''"
| "type_name (JString s) = ''str''"
| "type_name (JArray xs) = ''list''"
| "type_name (JObject kvs) = ''dict''"

text \<open>
  \<^verbatim>\<open>x.get(key, default)\<close>: the lookup of a \<^verbatim>\<open>dict\<close>; no other value that
  \<^verbatim>\<open>json.load\<close> returns has a \<^verbatim>\<open>get\<close> attribute.
\<close>

fun py_get :: "json \<Rightarrow> string \<Rightarrow> json \<Rightarrow> exn + json" where
  "py_get (JObject kvs) key dflt =
     Inr (case map_of kvs key of None \<Rightarrow> dflt | Some v \<Rightarrow> v)"
| "py_get x key dflt = Inl (AttributeError (type_name x) ''get'')"

subsection \<open>Library functions the hook calls\<close>

text \<open>\<^verbatim>\<open>str.isspace\<close> on the code points below 256, and \<^verbatim>\<open>str.strip()\<close>.\<close>

definition py_isspace :: "char \<Rightarrow> bool" where
  "py_isspace c =
     (let n = (of_char c :: nat)
      in (9 \<le> n \<and> n \<le> 13) \<or> (28 \<le> n \<and> n \<le> 32) \<or> n = 133 \<or> n = 160)"

definition py_strip :: "string \<Rightarrow> string" where
  "py_strip s = rev (dropWhile py_isspace (rev (dropWhile py_isspace s)))"

text \<open>\<^verbatim>\<open>str(n)\<close> of an integer.\<close>

fun str_nat :: "nat \<Rightarrow> string" where
  "str_nat n =
     (if n < 10 then [''0123456789'' ! n]
      else str_nat (n div 10) @ [''0123456789'' ! (n mod 10)])"

declare str_nat.simps [simp del]

definition str_int :: "int \<Rightarrow> string" where
  "str_int i = (if i < 0 then ''-'' @ str_nat (nat (- i)) else str_nat (nat i))"

text \<open>
  \<^verbatim>\<open>repr\<close> of a string, on the code points below 256. Python quotes with
  \<^verbatim>\<open>'\<close>, unless the string holds a \<^verbatim>\<open>'\<close> and no \<^verbatim>\<open>"\<close>; it escapes
  the backslash and the quote it chose, writes tab, newline and carriage return as
  \<^verbatim>\<open>\t\<close>, \<^verbatim>\<open>\n\<close>, \<^verbatim>\<open>\r\<close>, and every other character that
  \<^verbatim>\<open>str.isprintable\<close> rejects as \<^verbatim>\<open>\xNN\<close>.
\<close>

definition py_isprintable :: "char \<Rightarrow> bool" where
  "py_isprintable c =
     (let n = (of_char c :: nat)
      in (32 \<le> n \<and> n \<le> 126) \<or> (161 \<le> n \<and> n \<le> 172) \<or> 174 \<le> n)"

definition hex_digit :: "nat \<Rightarrow> char" where
  "hex_digit n = ''0123456789abcdef'' ! (n mod 16)"

definition repr_char :: "char \<Rightarrow> char \<Rightarrow> string" where
  "repr_char quote c =
     (let n = (of_char c :: nat) in
      if c = quote \<or> c = CHR 0x5C then [CHR 0x5C, c]
      else if n = 9 then [CHR 0x5C, CHR ''t'']
      else if n = 10 then [CHR 0x5C, CHR ''n'']
      else if n = 13 then [CHR 0x5C, CHR ''r'']
      else if \<not> py_isprintable c then [CHR 0x5C, CHR ''x'', hex_digit (n div 16), hex_digit n]
      else [c])"

definition repr_str :: "string \<Rightarrow> string" where
  "repr_str s =
     (let quote = (if CHR 0x27 \<in> set s \<and> CHR 0x22 \<notin> set s then CHR 0x22 else CHR 0x27)
      in [quote] @ concat (map (repr_char quote) s) @ [quote])"

fun join :: "string \<Rightarrow> string list \<Rightarrow> string" where
  "join sep [] = []"
| "join sep [x] = x"
| "join sep (x # y # ys) = x @ sep @ join sep (y # ys)"

definition repr_list :: "string list \<Rightarrow> string" where
  "repr_list xs = ''['' @ join '', '' (map repr_str xs) @ '']''"

text \<open>
  \<^verbatim>\<open>str(e)\<close> for the two exceptions \<^verbatim>\<open>run_command\<close> catches:
  \<^verbatim>\<open>TimeoutExpired.__str__\<close> of the \<^verbatim>\<open>subprocess\<close> module, and
  \<^verbatim>\<open>OSError.__str__\<close> for errno 2, with or without a file name.
\<close>

definition str_TimeoutExpired :: "string list \<Rightarrow> int \<Rightarrow> string" where
  "str_TimeoutExpired cmd timeout =
     ''Command '' @ [CHR 0x27] @ repr_list cmd @ [CHR 0x27] @ '' timed out after ''
       @ str_int timeout @ '' seconds''"

fun str_FileNotFoundError :: "string \<Rightarrow> string option \<Rightarrow> string" where
  "str_FileNotFoundError strerror None = ''[Errno 2] '' @ strerror"
| "str_FileNotFoundError strerror (Some filename) =
     ''[Errno 2] '' @ strerror @ '': '' @ repr_str filename"

text \<open>
  \<^verbatim>\<open>json.dumps\<close> with its defaults (\<^verbatim>\<open>ensure_ascii=True\<close>, separators
  \<^verbatim>\<open>", "\<close> and \<^verbatim>\<open>": "\<close>) on a \<^verbatim>\<open>dict\<close> from strings to strings, which is
  what the hook prints. \<open>escape_char\<close> is the replacement function of
  \<^verbatim>\<open>py_encode_basestring_ascii\<close>: backslash, double quote and everything outside
  \<^verbatim>\<open>' '..'~'\<close> are escaped.
\<close>

definition hex4 :: "nat \<Rightarrow> string" where
  "hex4 n = [hex_digit (n div 4096), hex_digit (n div 256), hex_digit (n div 16), hex_digit n]"

definition escape_char :: "char \<Rightarrow> string" where
  "escape_char c =
     (let n = (of_char c :: nat) in
      if c = CHR 0x5C then [CHR 0x5C, CHR 0x5C]
      else if c = CHR 0x22 then [CHR 0x5C, CHR 0x22]
      else if 32 \<le> n \<and> n \<le> 126 then [c]
      else if n = 8 then [CHR 0x5C, CHR ''b'']
      else if n = 12 then [CHR 0x5C, CHR ''f'']
      else if n = 10 then [CHR 0x5C, CHR ''n'']
      else if n = 13 then [CHR 0x5C, CHR ''r'']
      else if n = 9 then [CHR 0x5C, CHR ''t'']
      else [CHR 0x5C, CHR ''u''] @ hex4 n)"

definition encode_basestring_ascii :: "string \<Rightarrow> string" where
  "encode_basestring_ascii s = [CHR 0x22] @ concat (map escape_char s) @ [CHR 0x22]"

definition json_dumps :: "(string \<times> string) list \<Rightarrow> string" where
  "json_dumps items =
     ''{'' @ join '', ''
        (map (\<lambda>(k, v). encode_basestring_ascii k @ '': '' @ encode_basestring_ascii v) items)
      @ ''}''"

subsection \<open>Reading the printed object back\<close>

text \<open>
  The host reads the line the hook prints as a JSON object. \<open>read_payload\<close> is a
  reader for the objects the hook can print: string keys, string values, the separators
  of \<^verbatim>\<open>json.dumps\<close>, white space after the closing brace. It is stricter than a
  JSON parser (no white space elsewhere), so what it returns for a text is what a JSON
  parser returns for it. \<open>member\<close> is one \<^verbatim>\<open>"key": "value"\<close> as
  \<^verbatim>\<open>json.dumps\<close> writes it.
\<close>

text \<open>
  \<open>hex_value\<close>: the value of a hexadecimal digit. \<open>unescape\<close>: the character a
  two-character escape stands for.
\<close>

definition hex_value :: "char \<Rightarrow> nat option" where
  "hex_value c =
     (let n = (of_char c :: nat) in
      if 48 \<le> n \<and> n \<le> 57 then Some (n - 48)
      else if 97 \<le> n \<and> n \<le> 102 then Some (n - 87)
      else if 65 \<le> n \<and> n \<le> 70 then Some (n - 55)
      else None)"

definition unescape :: "char \<Rightarrow> char option" where
  "unescape e =
     (if e = CHR 0x22 \<or> e = CHR 0x5C \<or> e = CHR ''/'' then Some e
      else if e = CHR ''b'' then Some (CHR 0x08)
      else if e = CHR ''f'' then Some (CHR 0x0C)
      else if e = CHR ''n'' then Some (CHR 0x0A)
      else if e = CHR ''r'' then Some (CHR 0x0D)
      else if e = CHR ''t'' then Some (CHR 0x09)
      else None)"

text \<open>
  \<open>read_chars\<close> reads the characters of a string literal after its opening quote,
  up to the closing quote, and returns them with the text that follows. Control
  characters must be escaped, and a \<^verbatim>\<open>\uXXXX\<close> escape must name a code point below
  256.
\<close>

definition cons_char :: "char \<Rightarrow> (string \<times> string) option \<Rightarrow> (string \<times> string) option" where
  "cons_char c r = (case r of None \<Rightarrow> None | Some (s, rest) \<Rightarrow> Some (c # s, rest))"

fun read_chars :: "string \<Rightarrow> (string \<times> string) option" where
  "read_chars [] = None"
| "read_chars (c # cs) =
     (if c = CHR 0x22 then Some ([], cs)
      else if c \<noteq> CHR 0x5C then
        (if (of_char c :: nat) < 32 then None else cons_char c (read_chars cs))
      else
        (case cs of
           [] \<Rightarrow> None
         | e # es \<Rightarrow>
             if e = CHR ''u'' then
               (case es of
                  h1 # h2 # h3 # h4 # rest \<Rightarrow>
                    (case (hex_value h1, hex_value h2, hex_value h3, hex_value h4) of
                       (Some d1, Some d2, Some d3, Some d4) \<Rightarrow>
                         (let n = ((d1 * 16 + d2) * 16 + d3) * 16 + d4
                          in if n < 256 then cons_char (char_of n) (read_chars rest) else None)
                     | _ \<Rightarrow> None)
                | _ \<Rightarrow> None)
             else
               (case unescape e of
                  None \<Rightarrow> None
                | Some x \<Rightarrow> cons_char x (read_chars es))))"

declare read_chars.simps(2) [simp del]

text \<open>
  \<open>read_members\<close> reads the members \<^verbatim>\<open>"key": "value"\<close> of an object up to
  the closing brace, with at most \<open>fuel\<close> members; \<open>read_payload\<close> supplies the
  length of the text as fuel, which is more than the text can hold.
\<close>

fun read_string :: "string \<Rightarrow> (string \<times> string) option" where
  "read_string [] = None"
| "read_string (c # cs) = (if c = CHR 0x22 then read_chars cs else None)"

definition expect :: "string \<Rightarrow> string \<Rightarrow> string option" where
  "expect p s = (if take (length p) s = p then Some (drop (length p) s) else None)"

fun read_members :: "nat \<Rightarrow> string \<Rightarrow> ((string \<times> string) list \<times> string) option" where
  "read_members 0 s = None"
| "read_members (Suc fuel) s =
     (case read_string s of
        None \<Rightarrow> None
      | Some (k, s1) \<Rightarrow>
          (case expect '': '' s1 of
             None \<Rightarrow> None
           | Some s2 \<Rightarrow>
               (case read_string s2 of
                  None \<Rightarrow> None
                | Some (v, s3) \<Rightarrow>
                    (case expect ''}'' s3 of
                       Some s4 \<Rightarrow> Some ([(k, v)], s4)
                     | None \<Rightarrow>
                         (case expect '', '' s3 of
                            None \<Rightarrow> None
                          | Some s5 \<Rightarrow>
                              (case read_members fuel s5 of
                                 None \<Rightarrow> None
                               | Some (ms, s6) \<Rightarrow> Some ((k, v) # ms, s6)))))))"

definition json_space :: "char \<Rightarrow> bool" where
  "json_space c = (c = CHR '' '' \<or> c = CHR 0x09 \<or> c = CHR 0x0A \<or> c = CHR 0x0D)"

definition read_payload :: "string \<Rightarrow> (string \<times> string) list option" where
  "read_payload s =
     (case expect ''{'' s of
        None \<Rightarrow> None
      | Some s1 \<Rightarrow>
          (case expect ''}'' s1 of
             Some s2 \<Rightarrow> if dropWhile json_space s2 = [] then Some [] else None
           | None \<Rightarrow>
               (case read_members (length s1) s1 of
                  None \<Rightarrow> None
                | Some (ms, s2) \<Rightarrow> if dropWhile json_space s2 = [] then Some ms else None)))"

definition member :: "string \<times> string \<Rightarrow> string" where
  "member kv = encode_basestring_ascii (fst kv) @ '': '' @ encode_basestring_ascii (snd kv)"

subsection \<open>The world of one invocation\<close>

text \<open>
  What is on standard input, by what \<^verbatim>\<open>json.load(sys.stdin)\<close> makes of it:
  \<^item> \<open>Malformed\<close>: text that is no JSON document, which \<^verbatim>\<open>json.load\<close> rejects
    with \<^verbatim>\<open>JSONDecodeError\<close>;
  \<^item> \<open>Document v\<close>: a JSON document, which \<^verbatim>\<open>json.load\<close> decodes to \<open>v\<close>;
  \<^item> \<open>Unloadable is_json c\<close>: input on which \<^verbatim>\<open>json.load\<close> raises an exception
    of a class \<open>c\<close> other than \<^verbatim>\<open>JSONDecodeError\<close>: \<^verbatim>\<open>RecursionError\<close> for
    arrays or objects nested deeper than the interpreter's recursion limit,
    \<^verbatim>\<open>ValueError\<close> for an integer literal of more than 4300 digits,
    \<^verbatim>\<open>UnicodeDecodeError\<close> for bytes that the text stream cannot decode. The
    flag \<open>is_json\<close> says whether the input is a JSON document all the same (the
    decoder gives up before it reaches the end of the input, so it may or may not be).
\<close>

datatype payload = Malformed | Document json | Unloadable bool string

fun json_load :: "payload \<Rightarrow> exn + json" where
  "json_load Malformed = Inl JSONDecodeError"
| "json_load (Document v) = Inr v"
| "json_load (Unloadable is_json c) = Inl (OtherError c)"

text \<open>Whether the input is a JSON document.\<close>

fun is_json_document :: "payload \<Rightarrow> bool" where
  "is_json_document Malformed = False"
| "is_json_document (Document v) = True"
| "is_json_document (Unloadable is_json c) = is_json"

text \<open>
  What \<^verbatim>\<open>subprocess.run\<close> meets when it starts a command in a directory with a
  timeout: the child exits with a return code, having written some text to standard
  output (\<open>Completed returncode stdout\<close>, the text as the \<^verbatim>\<open>CompletedProcess\<close>
  holds it); the timeout expires; the executable or the directory does not exist
  (\<open>NotFound strerror filename\<close>); or something else goes wrong (\<open>Failed c\<close>, an
  exception of class \<open>c\<close>).
\<close>

datatype run_result =
    Completed int string
  | TimedOut
  | NotFound string "string option"
  | Failed string

record world =
  sys_stdin :: payload
  os_environ :: "string \<rightharpoonup> string"
  os_getcwd :: "string option"
  child :: "string list \<Rightarrow> int \<Rightarrow> string \<Rightarrow> run_result"

text \<open>
  \<open>os_getcwd\<close> is \<open>None\<close> when the current directory no longer exists, where
  \<^verbatim>\<open>os.getcwd()\<close> raises \<^verbatim>\<open>FileNotFoundError\<close>.
\<close>

definition getcwd :: "world \<Rightarrow> exn + string" where
  "getcwd w =
     (case os_getcwd w of
        None \<Rightarrow> Inl (FileNotFoundError ''No such file or directory'' None)
      | Some d \<Rightarrow> Inr d)"

definition subprocess_run :: "world \<Rightarrow> string list \<Rightarrow> int \<Rightarrow> string \<Rightarrow> exn + int \<times> string" where
  "subprocess_run w cmd timeout cwd =
     (case child w cmd timeout cwd of
        Completed returncode out \<Rightarrow> Inr (returncode, out)
      | TimedOut \<Rightarrow> Inl (TimeoutExpired cmd timeout)
      | NotFound strerror filename \<Rightarrow> Inl (FileNotFoundError strerror filename)
      | Failed c \<Rightarrow> Inl (OtherError c))"

text \<open>How the process ends, and what it leaves behind.\<close>

datatype ending = Exit int | Uncaught exn

record outcome =
  ending :: ending
  stdout :: string
  spawned :: "(string list \<times> string) list"

text \<open>
  The exit code the host sees: the argument of \<^verbatim>\<open>sys.exit\<close>, or 1 when the
  interpreter dies of an uncaught exception (after printing a traceback to standard error).
\<close>

fun exit_code :: "ending \<Rightarrow> int" where
  "exit_code (Exit n) = n"
| "exit_code (Uncaught e) = 1"

subsection \<open>The hook\<close>

text \<open>\<^verbatim>\<open>get_env\<close>: \<^verbatim>\<open>os.environ.get(name, default)\<close>.\<close>

definition get_env :: "world \<Rightarrow> string \<Rightarrow> string \<Rightarrow> string" where
  "get_env w name dflt = (case os_environ w name of None \<Rightarrow> dflt | Some v \<Rightarrow> v)"

text \<open>
  \<^verbatim>\<open>run_command\<close>. Inside the \<^verbatim>\<open>try\<close>, the arguments of
  \<^verbatim>\<open>subprocess.run\<close> are evaluated first, so \<^verbatim>\<open>os.getcwd()\<close> is called even
  when \<^verbatim>\<open>CLAUDE_PROJECT_DIR\<close> is set. The handler catches
  \<^verbatim>\<open>TimeoutExpired\<close> and \<^verbatim>\<open>FileNotFoundError\<close> only. The second component
  lists the child processes started, as (command, directory).
\<close>

fun handler :: "exn \<Rightarrow> exn + bool \<times> string" where
  "handler (TimeoutExpired cmd timeout) = Inr (False, str_TimeoutExpired cmd timeout)"
| "handler (FileNotFoundError strerror filename) =
     Inr (False, str_FileNotFoundError strerror filename)"
| "handler e = Inl e"

definition run_command ::
  "world \<Rightarrow> string list \<Rightarrow> int \<Rightarrow> (exn + bool \<times> string) \<times> (string list \<times> string) list" where
  "run_command w cmd timeout =
     (case getcwd w of
        Inl e \<Rightarrow> (handler e, [])
      | Inr d \<Rightarrow>
          let cwd = get_env w ''CLAUDE_PROJECT_DIR'' d in
          (case subprocess_run w cmd timeout cwd of
             Inl e \<Rightarrow> (handler e, [(cmd, cwd)])
           | Inr (returncode, out) \<Rightarrow> (Inr (returncode = 0, py_strip out), [(cmd, cwd)])))"

text \<open>The f-string of \<^verbatim>\<open>main\<close>.\<close>

definition prompt :: "string \<Rightarrow> string \<Rightarrow> string" where
  "prompt git_status session_name =
     ''## Loop Agent - Uncommitted Changes Detected'' @ NL @
     NL @
     ''You have uncommitted changes:'' @ NL @
     ''```'' @ NL @
     git_status @ NL @
     ''```'' @ NL @
     NL @
     ''Before stopping, ensure:'' @ NL @
     NL @
     ''1. **Tests pass** - If this project has a test suite, run it now'' @ NL @
     ''2. **Commit everything** - Including any updates to the progress file'' @ NL @
     NL @
     ''**Progress file:** Always APPEND to `.claude/loop-progress/progress-'' @ session_name
       @ ''.txt` (never overwrite).'' @ NL @
     NL @
     ''Once tests pass and all changes are committed, you may stop.'' @ NL"

definition git_status_cmd :: "string list" where
  "git_status_cmd = [''git'', ''status'', ''--porcelain'']"

text \<open>
  \<^verbatim>\<open>main\<close>. Every \<^verbatim>\<open>sys.exit(0)\<close> ends the process with \<open>Exit 0\<close>; an
  exception nobody catches ends it with \<open>Uncaught\<close>. \<^verbatim>\<open>print\<close> writes its
  argument and a newline.
\<close>

definition main :: "world \<Rightarrow> outcome" where
  "main w =
     (case json_load (sys_stdin w) of
        Inl JSONDecodeError \<Rightarrow> \<lparr>ending = Exit 0, stdout = [], spawned = []\<rparr>
      | Inl e \<Rightarrow> \<lparr>ending = Uncaught e, stdout = [], spawned = []\<rparr>
      | Inr input_data \<Rightarrow>
          if \<not> truthy_str (get_env w ''CLAUDE_PIPELINE_AGENT'' [])
          then \<lparr>ending = Exit 0, stdout = [], spawned = []\<rparr>
          else
            (case py_get input_data ''stop_hook_active'' (JBool False) of
               Inl e \<Rightarrow> \<lparr>ending = Uncaught e, stdout = [], spawned = []\<rparr>
             | Inr active \<Rightarrow>
                 if truthy active
                 then \<lparr>ending = Exit 0, stdout = [], spawned = []\<rparr>
                 else
                   let session_name = get_env w ''CLAUDE_PIPELINE_SESSION'' ''default'' in
                   (case run_command w git_status_cmd 10 of
                      (Inl e, procs) \<Rightarrow> \<lparr>ending = Uncaught e, stdout = [], spawned = procs\<rparr>
                    | (Inr (_, git_status), procs) \<Rightarrow>
                        if \<not> truthy_str git_status
                        then \<lparr>ending = Exit 0, stdout = [], spawned = procs\<rparr>
                        else
                          \<lparr>ending = Exit 0,
                           stdout =
                             json_dumps
                               [(''decision'', ''block''),
                                (''reason'', prompt git_status session_name)] @ NL,
                           spawned = procs\<rparr>)))"

subsection \<open>Concrete invocations\<close>

text \<open>
  The four scenarios of the specification, and the invocations used below as examples.
  A dirty tree is one where \<^verbatim>\<open>git status --porcelain\<close> prints
  \<^verbatim>\<open>M file.txt\<close> and a newline.
\<close>

definition dirty_tree :: "string list \<Rightarrow> int \<Rightarrow> string \<Rightarrow> run_result" where
  "dirty_tree cmd timeout cwd = Completed 0 (''M file.txt'' @ NL)"

definition clean_tree :: "string list \<Rightarrow> int \<Rightarrow> string \<Rightarrow> run_result" where
  "clean_tree cmd timeout cwd = Completed 0 []"

definition scenario_A :: world where
  "scenario_A =
     \<lparr>sys_stdin = Document (JObject [(''stop_hook_active'', JBool True)]),
      os_environ = map_of [(''CLAUDE_PIPELINE_SESSION'', ''alpha'')],
      os_getcwd = Some ''/repo'',
      child = dirty_tree\<rparr>"

definition scenario_B :: world where
  "scenario_B =
     \<lparr>sys_stdin = Document (JObject [(''stop_hook_active'', JBool True)]),
      os_environ = map_of [(''CLAUDE_PIPELINE_AGENT'', ''1'')],
      os_getcwd = Some ''/repo'',
      child = dirty_tree\<rparr>"

definition scenario_C :: world where
  "scenario_C =
     \<lparr>sys_stdin = Document (JObject [(''stop_hook_active'', JBool False)]),
      os_environ = map_of [(''CLAUDE_PIPELINE_AGENT'', ''1'')],
      os_getcwd = Some ''/repo'',
      child = clean_tree\<rparr>"

definition scenario_D :: world where
  "scenario_D =
     \<lparr>sys_stdin = Document (JObject []),
      os_environ =
        map_of [(''CLAUDE_PIPELINE_AGENT'', ''1''), (''CLAUDE_PIPELINE_SESSION'', ''alpha'')],
      os_getcwd = Some ''/repo'',
      child = dirty_tree\<rparr>"

text \<open>Scenario D started from another directory, with one more newline printed.\<close>

definition scenario_D_elsewhere :: world where
  "scenario_D_elsewhere =
     scenario_D
       \<lparr>os_getcwd := Some ''/repo/src'',
        child := (\<lambda>cmd timeout cwd. Completed 0 (''M file.txt'' @ NL @ NL))\<rparr>"

text \<open>Scenario D with text on standard input that is no JSON document.\<close>

definition garbled_stdin :: world where
  "garbled_stdin = scenario_D\<lparr>sys_stdin := Malformed\<rparr>"

text \<open>Scenario D with the payload \<^verbatim>\<open>[]\<close>: a JSON document, not an object.\<close>

definition list_payload :: world where
  "list_payload = scenario_D\<lparr>sys_stdin := Document (JArray [])\<rparr>"

text \<open>
  An activated gate, payload \<^verbatim>\<open>{}\<close>, no session name, on a machine where no
  \<^verbatim>\<open>git\<close> executable is found; and the same where \<^verbatim>\<open>git\<close> does not
  finish in time.
\<close>

definition git_missing :: world where
  "git_missing =
     \<lparr>sys_stdin = Document (JObject []),
      os_environ = map_of [(''CLAUDE_PIPELINE_AGENT'', ''1'')],
      os_getcwd = Some ''/repo'',
      child = (\<lambda>cmd timeout cwd. NotFound ''No such file or directory'' (Some ''git''))\<rparr>"

definition git_hangs :: world where
  "git_hangs = git_missing\<lparr>child := (\<lambda>cmd timeout cwd. TimedOut)\<rparr>"

text \<open>
  A status command that reports failure (return code 1) and prints a single newline; and
  one that fails with return code 128 after printing a status line.
\<close>

definition blank_line_failure :: world where
  "blank_line_failure = git_missing\<lparr>child := (\<lambda>cmd timeout cwd. Completed 1 NL)\<rparr>"

definition dirty_failure :: world where
  "dirty_failure =
     git_missing\<lparr>child := (\<lambda>cmd timeout cwd. Completed 128 ('' M file.txt'' @ NL))\<rparr>"

text \<open>Scenario D with the agent-mode variable set to \<^verbatim>\<open>0\<close>.\<close>

definition agent_flag_zero :: world where
  "agent_flag_zero =
     scenario_D
       \<lparr>os_environ :=
          map_of [(''CLAUDE_PIPELINE_AGENT'', ''0''), (''CLAUDE_PIPELINE_SESSION'', ''alpha'')]\<rparr>"

text \<open>Scenario D with the agent-mode variable set to \<^verbatim>\<open>false\<close>.\<close>

definition agent_flag_false :: world where
  "agent_flag_false =
     scenario_D
       \<lparr>os_environ :=
          map_of
            [(''CLAUDE_PIPELINE_AGENT'', ''false''), (''CLAUDE_PIPELINE_SESSION'', ''alpha'')]\<rparr>"

text \<open>Scenario A with the agent-mode variable set to the empty string.\<close>

definition agent_flag_empty :: world where
  "agent_flag_empty =
     scenario_A
       \<lparr>os_environ :=
          map_of [(''CLAUDE_PIPELINE_AGENT'', []), (''CLAUDE_PIPELINE_SESSION'', ''alpha'')]\<rparr>"

text \<open>
  A regular session (no agent-mode variable) whose payload is a JSON document of arrays
  nested deeper than the recursion limit; and scenario D with a payload of opening
  brackets only, as many, which is no JSON document. On both \<^verbatim>\<open>json.load\<close>
  raises \<^verbatim>\<open>RecursionError\<close>.
\<close>

definition deep_nesting_inactive :: world where
  "deep_nesting_inactive = scenario_A\<lparr>sys_stdin := Unloadable True ''RecursionError''\<rparr>"

definition unclosed_nesting :: world where
  "unclosed_nesting = scenario_D\<lparr>sys_stdin := Unloadable False ''RecursionError''\<rparr>"

text \<open>
  An activated hook, payload \<^verbatim>\<open>{}\<close>, no session name, and a tree with one
  unstaged modification, for which \<^verbatim>\<open>git status --porcelain\<close> prints a space,
  \<^verbatim>\<open>M file.txt\<close> and a newline, with return code 0; and a status command that
  succeeds having printed one newline.
\<close>

definition unstaged_change :: world where
  "unstaged_change =
     git_missing\<lparr>child := (\<lambda>cmd timeout cwd. Completed 0 ('' M file.txt'' @ NL))\<rparr>"

definition blank_line_success :: world where
  "blank_line_success = git_missing\<lparr>child := (\<lambda>cmd timeout cwd. Completed 0 NL)\<rparr>"

section \<open>Properties\<close>

subsection \<open>The block message\<close>

lemma status_in_prompt: "sublist git_status (prompt git_status session_name)"
proof -
  have "prompt git_status session_name =
      (''## Loop Agent - Uncommitted Changes Detected'' @ NL @ NL @
       ''You have uncommitted changes:'' @ NL @ ''```'' @ NL)
      @ git_status
      @ (NL @ ''```'' @ NL @ NL @ ''Before stopping, ensure:'' @ NL @ NL @
         ''1. **Tests pass** - If this project has a test suite, run it now'' @ NL @
         ''2. **Commit everything** - Including any updates to the progress file'' @ NL @ NL @
         ''**Progress file:** Always APPEND to `.claude/loop-progress/progress-'' @ session_name
           @ ''.txt` (never overwrite).'' @ NL @ NL @
         ''Once tests pass and all changes are committed, you may stop.'' @ NL)"
    by (simp add: prompt_def)
  then show ?thesis
    by (metis sublist_appendI)
qed

lemma progress_file_in_prompt:
  "sublist (''progress-'' @ session_name @ ''.txt'') (prompt git_status session_name)"
proof -
  have "prompt git_status session_name =
      (''## Loop Agent - Uncommitted Changes Detected'' @ NL @ NL @
       ''You have uncommitted changes:'' @ NL @ ''```'' @ NL @ git_status @ NL @ ''```'' @ NL @ NL @
       ''Before stopping, ensure:'' @ NL @ NL @
       ''1. **Tests pass** - If this project has a test suite, run it now'' @ NL @
       ''2. **Commit everything** - Including any updates to the progress file'' @ NL @ NL @
       ''**Progress file:** Always APPEND to `.claude/loop-progress/'')
      @ (''progress-'' @ session_name @ ''.txt'')
      @ (''` (never overwrite).'' @ NL @ NL @
         ''Once tests pass and all changes are committed, you may stop.'' @ NL)"
    by (simp add: prompt_def)
  then show ?thesis
    by (metis sublist_appendI)
qed

lemma json_dumps_nonempty: "json_dumps items \<noteq> []"
  by (simp add: json_dumps_def)

subsection \<open>The reader undoes \<^verbatim>\<open>json.dumps\<close>\<close>

text \<open>
  Whatever dictionary of strings \<^verbatim>\<open>json.dumps\<close> is given, reading the printed
  line gives the dictionary back: the escapes lose nothing, and the quotes, colons, commas
  and braces are where a JSON parser expects them.
\<close>

lemma hex_value_hex_digit: "hex_value (hex_digit k) = Some (k mod 16)"
proof -
  have "k mod 16 < 16" by simp
  then have "k mod 16 \<in> set [0..<16]" by simp
  then show ?thesis
    unfolding hex_digit_def
    by (simp add: upt_rec hex_value_def) (elim disjE; simp)
qed


lemma read_chars_plain:
  assumes "c \<noteq> CHR 0x22" "c \<noteq> CHR 0x5C" "32 \<le> (of_char c :: nat)"
  shows "read_chars (c # t) = cons_char c (read_chars t)"
  using assms by (simp add: read_chars.simps(2))

lemma read_chars_simple_escape:
  assumes "unescape e = Some x" "e \<noteq> CHR ''u''"
  shows "read_chars (CHR 0x5C # e # t) = cons_char x (read_chars t)"
  using assms by (simp add: read_chars.simps(2))

lemma read_chars_hex_escape:
  assumes "(of_char c :: nat) = n"
  shows "read_chars (CHR 0x5C # CHR ''u'' # hex4 n @ t) = cons_char c (read_chars t)"
proof -
  have n: "n < 256" using assms nat_of_char_less_256 [of c] by simp
  then have z: "n div 4096 = 0" "n div 256 = 0" "n div 16 mod 16 = n div 16" by auto
  have "((0 * 16 + 0) * 16 + n div 16) * 16 + n mod 16 = n" by simp
  moreover have "char_of n = c" using assms by auto
  ultimately show ?thesis
    using n by (simp add: read_chars.simps(2) hex4_def hex_value_hex_digit z)
qed

lemma read_chars_escape_char: "read_chars (escape_char c @ t) = cons_char c (read_chars t)"
proof -
  let ?n = "of_char c :: nat"
  consider (bs) "c = CHR 0x5C" | (dq) "c = CHR 0x22"
    | (plain) "c \<noteq> CHR 0x5C" "c \<noteq> CHR 0x22" "32 \<le> ?n" "?n \<le> 126"
    | (b) "?n = 8" | (f) "?n = 12" | (n) "?n = 10" | (r) "?n = 13" | (t) "?n = 9"
    | (other) "c \<noteq> CHR 0x5C" "c \<noteq> CHR 0x22" "\<not> (32 \<le> ?n \<and> ?n \<le> 126)"
        "?n \<noteq> 8" "?n \<noteq> 12" "?n \<noteq> 10" "?n \<noteq> 13" "?n \<noteq> 9"
    by blast
  then show ?thesis
  proof cases
    case bs
    then show ?thesis
      by (simp add: escape_char_def read_chars_simple_escape unescape_def)
  next
    case dq
    then show ?thesis
      by (simp add: escape_char_def read_chars_simple_escape unescape_def)
  next
    case plain
    then show ?thesis
      by (simp add: escape_char_def read_chars_plain)
  next
    case b
    then have "(of_char c :: nat) = of_char (CHR 0x08)" by simp
    then have "c = CHR 0x08" by (simp only: of_char_eq_iff)
    then show ?thesis
      by (simp add: escape_char_def read_chars_simple_escape unescape_def)
  next
    case f
    then have "(of_char c :: nat) = of_char (CHR 0x0C)" by simp
    then have "c = CHR 0x0C" by (simp only: of_char_eq_iff)
    then show ?thesis
      by (simp add: escape_char_def read_chars_simple_escape unescape_def)
  next
    case n
    then have "(of_char c :: nat) = of_char (CHR 0x0A)" by simp
    then have "c = CHR 0x0A" by (simp only: of_char_eq_iff)
    then show ?thesis
      by (simp add: escape_char_def read_chars_simple_escape unescape_def)
  next
    case r
    then have "(of_char c :: nat) = of_char (CHR 0x0D)" by simp
    then have "c = CHR 0x0D" by (simp only: of_char_eq_iff)
    then show ?thesis
      by (simp add: escape_char_def read_chars_simple_escape unescape_def)
  next
    case t
    then have "(of_char c :: nat) = of_char (CHR 0x09)" by simp
    then have "c = CHR 0x09" by (simp only: of_char_eq_iff)
    then show ?thesis
      by (simp add: escape_char_def read_chars_simple_escape unescape_def)
  next
    case other
    then have "escape_char c = [CHR 0x5C, CHR ''u''] @ hex4 ?n"
      by (simp add: escape_char_def Let_def)
    then show ?thesis
      using read_chars_hex_escape [of c ?n t] by simp
  qed
qed

lemma read_chars_encoded:
  "read_chars (concat (map escape_char s) @ CHR 0x22 # t) = Some (s, t)"
proof (induction s)
  case Nil
  show ?case by (simp add: read_chars.simps(2))
next
  case (Cons c s)
  have "read_chars (escape_char c @ (concat (map escape_char s) @ CHR 0x22 # t))
          = cons_char c (read_chars (concat (map escape_char s) @ CHR 0x22 # t))"
    by (rule read_chars_escape_char)
  with Cons show ?case by (simp add: cons_char_def)
qed


lemma read_string_encoded: "read_string (encode_basestring_ascii s @ t) = Some (s, t)"
  by (simp add: encode_basestring_ascii_def read_chars_encoded)

lemma expect_prefix: "expect p (p @ t) = Some t"
  by (simp add: expect_def)

lemma json_dumps_members: "json_dumps items = ''{'' @ join '', '' (map member items) @ ''}''"
proof -
  have "(\<lambda>(k, v). encode_basestring_ascii k @ '': '' @ encode_basestring_ascii v) = member"
    by (auto simp: member_def fun_eq_iff)
  then show ?thesis by (simp add: json_dumps_def)
qed

lemma read_one_member:
  "read_members (Suc fuel) (member (k, v) @ t) =
     (case expect ''}'' t of
        Some s4 \<Rightarrow> Some ([(k, v)], s4)
      | None \<Rightarrow>
          (case expect '', '' t of
             None \<Rightarrow> None
           | Some s5 \<Rightarrow>
               (case read_members fuel s5 of
                  None \<Rightarrow> None
                | Some (ms, s6) \<Rightarrow> Some ((k, v) # ms, s6))))"
proof -
  have "member (k, v) @ t =
          encode_basestring_ascii k @ ('': '' @ encode_basestring_ascii v @ t)"
    by (simp add: member_def)
  moreover have "expect '': '' ('': '' @ encode_basestring_ascii v @ t)
                   = Some (encode_basestring_ascii v @ t)"
    by (rule expect_prefix)
  ultimately show ?thesis
    by (simp only: read_members.simps read_string_encoded option.case prod.case)
qed

lemma read_members_dumped:
  assumes "items \<noteq> []" "length items \<le> fuel"
  shows "read_members fuel (join '', '' (map member items) @ ''}'' @ t) = Some (items, t)"
  using assms
proof (induction items arbitrary: fuel)
  case Nil
  then show ?case by simp
next
  case (Cons kv items)
  obtain k v where kv: "kv = (k, v)" by (cases kv)
  obtain f where fuel: "fuel = Suc f" "length items \<le> f"
    using Cons.prems(2) by (cases fuel) auto
  show ?case
  proof (cases items)
    case Nil
    have "read_members (Suc f) (member (k, v) @ (''}'' @ t)) = Some ([(k, v)], t)"
      by (simp only: read_one_member expect_prefix option.case)
    with Nil kv fuel show ?thesis by simp
  next
    case (Cons kv' items')
    then have ih: "read_members f (join '', '' (map member items) @ CHR ''}'' # t) = Some (items, t)"
      using Cons.IH [of f] fuel by simp
    have "read_members (Suc f)
            (member (k, v) @ ('', '' @ join '', '' (map member items) @ ''}'' @ t))
          = Some ((k, v) # items, t)"
      by (subst read_one_member) (simp add: expect_def ih)
    with Cons kv fuel show ?thesis by simp
  qed
qed

lemma member_nonempty: "member kv \<noteq> []"
  by (simp add: member_def encode_basestring_ascii_def)

lemma length_join_members: "length items \<le> length (join sep (map member items))"
proof (induction items rule: induct_list012)
  case 1
  show ?case by simp
next
  case (2 kv)
  have "member kv \<noteq> []" by (rule member_nonempty)
  then show ?case by (cases "member kv") simp_all
next
  case (3 kv kv' items)
  have "member kv \<noteq> []" by (rule member_nonempty)
  then have "1 \<le> length (member kv)" by (cases "member kv") simp_all
  with 3 show ?case by simp
qed

lemma read_payload_json_dumps: "read_payload (json_dumps items @ NL) = Some items"
proof (cases items)
  case Nil
  then show ?thesis
    by (simp add: json_dumps_def read_payload_def expect_def json_space_def)
next
  case (Cons kv items')
  let ?body = "join '', '' (map member items)"
  have open_brace: "expect ''{'' (json_dumps items @ NL) = Some (?body @ ''}'' @ NL)"
    by (simp add: json_dumps_members expect_def)
  have "?body \<noteq> []"
    using length_join_members [of items "'', ''"] Cons by auto
  moreover have "hd ?body = CHR 0x22"
    using Cons by (cases items') (simp_all add: member_def encode_basestring_ascii_def)
  ultimately have no_close: "expect ''}'' (?body @ ''}'' @ NL) = None"
    by (cases ?body) (simp_all add: expect_def)
  have "length items \<le> length (?body @ ''}'' @ NL)"
    using length_join_members [of items "'', ''"] by simp
  with Cons have "read_members (length (?body @ ''}'' @ NL)) (?body @ ''}'' @ NL) = Some (items, NL)"
    by (intro read_members_dumped) simp_all
  with open_brace no_close show ?thesis
    by (simp add: read_payload_def json_space_def)
qed

subsection \<open>The messages of caught exceptions\<close>

text \<open>The messages of the two exceptions \<^verbatim>\<open>run_command\<close> catches are never empty.\<close>

lemma str_TimeoutExpired_nonempty: "str_TimeoutExpired cmd timeout \<noteq> []"
  by (simp add: str_TimeoutExpired_def)

lemma str_FileNotFoundError_nonempty: "str_FileNotFoundError strerror filename \<noteq> []"
  by (cases filename) simp_all

lemma str_TimeoutExpired_git_status:
  "str_TimeoutExpired git_status_cmd 10 =
     ''Command '' @ [CHR 0x27] @ ''['' @ repr_str ''git'' @ '', '' @ repr_str ''status'' @ '', ''
       @ repr_str ''--porcelain'' @ '']'' @ [CHR 0x27] @ '' timed out after 10 seconds''"
  by (simp add: str_TimeoutExpired_def git_status_cmd_def repr_list_def repr_str_def str_int_def
      str_nat.simps)

subsection \<open>The status query on the concrete invocations\<close>

lemma run_command_scenario_C:
  "run_command scenario_C git_status_cmd 10 = (Inr (True, []), [(git_status_cmd, ''/repo'')])"
  by (simp add: run_command_def getcwd_def subprocess_run_def get_env_def scenario_C_def
      clean_tree_def py_strip_def)

lemma run_command_scenario_D:
  "run_command scenario_D git_status_cmd 10
     = (Inr (True, ''M file.txt''), [(git_status_cmd, ''/repo'')])"
  by (simp add: run_command_def getcwd_def subprocess_run_def get_env_def scenario_D_def
      dirty_tree_def py_strip_def py_isspace_def)

lemma run_command_scenario_D_elsewhere:
  "run_command scenario_D_elsewhere git_status_cmd 10
     = (Inr (True, ''M file.txt''), [(git_status_cmd, ''/repo/src'')])"
  by (simp add: run_command_def getcwd_def subprocess_run_def get_env_def
      scenario_D_elsewhere_def scenario_D_def py_strip_def py_isspace_def)

lemma run_command_agent_flag_zero:
  "run_command agent_flag_zero git_status_cmd 10
     = (Inr (True, ''M file.txt''), [(git_status_cmd, ''/repo'')])"
  by (simp add: run_command_def getcwd_def subprocess_run_def get_env_def agent_flag_zero_def
      scenario_D_def dirty_tree_def py_strip_def py_isspace_def)

lemma run_command_agent_flag_false:
  "run_command agent_flag_false git_status_cmd 10
     = (Inr (True, ''M file.txt''), [(git_status_cmd, ''/repo'')])"
  by (simp add: run_command_def getcwd_def subprocess_run_def get_env_def agent_flag_false_def
      scenario_D_def dirty_tree_def py_strip_def py_isspace_def)

subsection \<open>Past the two guards\<close>

text \<open>
  Once the agent-mode variable is non-empty and the payload is an object whose
  \<^verbatim>\<open>stop_hook_active\<close> is missing or falsy, the outcome is decided by the text
  \<^verbatim>\<open>run_command\<close> returns, and by nothing else of its result.
\<close>

lemma main_past_guards:
  assumes "get_env w ''CLAUDE_PIPELINE_AGENT'' [] \<noteq> []"
      and "sys_stdin w = Document input_data"
      and "py_get input_data ''stop_hook_active'' (JBool False) = Inr active"
      and "\<not> truthy active"
      and "run_command w git_status_cmd 10 = (Inr (ok, git_status), procs)"
  shows "main w =
           (if git_status = [] then \<lparr>ending = Exit 0, stdout = [], spawned = procs\<rparr>
            else \<lparr>ending = Exit 0,
                  stdout =
                    json_dumps
                      [(''decision'', ''block''),
                       (''reason'',
                        prompt git_status (get_env w ''CLAUDE_PIPELINE_SESSION'' ''default''))]
                    @ NL,
                  spawned = procs\<rparr>)"
  using assms by (simp add: main_def truthy_str_def)

subsection \<open>A status query that fails or times out\<close>

text \<open>
  When \<^verbatim>\<open>git\<close> is not found or does not finish within the timeout,
  \<^verbatim>\<open>run_command\<close> returns \<^verbatim>\<open>(False, str(e))\<close>. \<^verbatim>\<open>main\<close> drops the
  flag and tests the text, which is the message of the exception and never empty: the hook
  prints a block decision whose reason shows that message as the uncommitted changes.
\<close>

lemma failed_query_blocks:
  assumes "get_env w ''CLAUDE_PIPELINE_AGENT'' [] \<noteq> []"
      and "sys_stdin w = Document input_data"
      and "py_get input_data ''stop_hook_active'' (JBool False) = Inr active"
      and "\<not> truthy active"
      and "os_getcwd w = Some d"
      and "child w git_status_cmd 10 (get_env w ''CLAUDE_PROJECT_DIR'' d) = TimedOut
           \<or> child w git_status_cmd 10 (get_env w ''CLAUDE_PROJECT_DIR'' d)
               = NotFound strerror filename"
  shows "ending (main w) = Exit 0 \<and> stdout (main w) \<noteq> []"
proof -
  obtain msg where
    "run_command w git_status_cmd 10
       = (Inr (False, msg), [(git_status_cmd, get_env w ''CLAUDE_PROJECT_DIR'' d)])"
    and "msg \<noteq> []"
    using assms(5,6) str_TimeoutExpired_nonempty str_FileNotFoundError_nonempty
    by (auto simp: run_command_def getcwd_def subprocess_run_def)
  with assms(1-4) show ?thesis
    by (simp add: main_past_guards json_dumps_nonempty)
qed

lemma git_hangs_blocks:
  "child git_hangs git_status_cmd 10 ''/repo'' = TimedOut
   \<and> main git_hangs =
       \<lparr>ending = Exit 0,
        stdout =
          json_dumps
            [(''decision'', ''block''),
             (''reason'', prompt (str_TimeoutExpired git_status_cmd 10) ''default'')]
          @ NL,
        spawned = [(git_status_cmd, ''/repo'')]\<rparr>"
  by (simp add: main_def run_command_def getcwd_def subprocess_run_def get_env_def
      truthy_str_def git_hangs_def git_missing_def str_TimeoutExpired_nonempty)

text \<open>
  C1. The claim: whenever the status query fails (the tool is not found) or exceeds its
  timeout, the verdict is ALLOW, exit 0 with no output, never BLOCK. The code at the
  invocation \<open>git_missing\<close> (agent mode on, payload \<^verbatim>\<open>{}\<close>, no \<^verbatim>\<open>git\<close>
  executable): the query returns \<^verbatim>\<open>(False, "[Errno 2] No such file or directory:
  'git'")\<close>, and the hook exits 0 having printed a block decision with that text in its
  reason.
\<close>

theorem C1_missing_git_blocks:
  "get_env git_missing ''CLAUDE_PIPELINE_AGENT'' [] \<noteq> []
   \<and> sys_stdin git_missing = Document (JObject [])
   \<and> child git_missing git_status_cmd 10 ''/repo''
       = NotFound ''No such file or directory'' (Some ''git'')
   \<and> run_command git_missing git_status_cmd 10
       = (Inr (False, ''[Errno 2] No such file or directory: '' @ repr_str ''git''),
          [(git_status_cmd, ''/repo'')])
   \<and> main git_missing =
       \<lparr>ending = Exit 0,
        stdout =
          json_dumps
            [(''decision'', ''block''),
             (''reason'',
              prompt (''[Errno 2] No such file or directory: '' @ repr_str ''git'') ''default'')]
          @ NL,
        spawned = [(git_status_cmd, ''/repo'')]\<rparr>"
  by (simp add: main_def run_command_def getcwd_def subprocess_run_def get_env_def
      truthy_str_def git_missing_def)

subsection \<open>Input that \<^verbatim>\<open>json.load\<close> neither decodes nor rejects\<close>

text \<open>
  \<^verbatim>\<open>main\<close> calls \<^verbatim>\<open>json.load\<close> first and catches
  \<^verbatim>\<open>JSONDecodeError\<close> only. Any other exception of \<^verbatim>\<open>json.load\<close> ends the
  process before the environment is looked at, whatever the agent-mode variable says.
\<close>

lemma unloadable_payload_uncaught:
  assumes "sys_stdin w = Unloadable is_json c"
  shows "main w = \<lparr>ending = Uncaught (OtherError c), stdout = [], spawned = []\<rparr>"
  using assms by (simp add: main_def)

subsection \<open>The activation filter\<close>

text \<open>
  On input that \<^verbatim>\<open>json.load\<close> decodes or rejects, an unset or empty agent-mode
  variable makes the hook exit with status 0, print nothing and start no child process,
  whatever the payload says and whatever the state of the repository.
\<close>

lemma inactive_allows:
  assumes "os_environ w ''CLAUDE_PIPELINE_AGENT'' = None
             \<or> os_environ w ''CLAUDE_PIPELINE_AGENT'' = Some []"
      and "sys_stdin w = Malformed \<or> sys_stdin w = Document input_data"
  shows "main w = \<lparr>ending = Exit 0, stdout = [], spawned = []\<rparr>"
proof -
  from assms(1) have "\<not> truthy_str (get_env w ''CLAUDE_PIPELINE_AGENT'' [])"
    by (auto simp: get_env_def truthy_str_def)
  with assms(2) show ?thesis by (auto simp: main_def)
qed

lemma inactive_scenarios_allow:
  "os_environ scenario_A ''CLAUDE_PIPELINE_AGENT'' = None
   \<and> os_environ agent_flag_empty ''CLAUDE_PIPELINE_AGENT'' = Some []
   \<and> sys_stdin scenario_A = Document (JObject [(''stop_hook_active'', JBool True)])
   \<and> child scenario_A git_status_cmd 10 ''/repo'' = Completed 0 (''M file.txt'' @ NL)
   \<and> main scenario_A = \<lparr>ending = Exit 0, stdout = [], spawned = []\<rparr>
   \<and> main agent_flag_empty = \<lparr>ending = Exit 0, stdout = [], spawned = []\<rparr>"
  using inactive_allows [of scenario_A "JObject [(''stop_hook_active'', JBool True)]"]
    inactive_allows [of agent_flag_empty "JObject [(''stop_hook_active'', JBool True)]"]
  by (simp add: scenario_A_def agent_flag_empty_def dirty_tree_def)

text \<open>
  C2. The claim: whenever the agent-mode variable is unset or empty, the hook exits with
  status 0 and prints nothing, whatever the payload on standard input. The code at the
  invocation \<open>deep_nesting_inactive\<close> (variable unset, payload a JSON document of
  arrays nested deeper than the recursion limit): \<^verbatim>\<open>json.load\<close> runs before the
  variable is read and raises \<^verbatim>\<open>RecursionError\<close>, the handler is for
  \<^verbatim>\<open>JSONDecodeError\<close> only, and the interpreter exits with code 1, in a session
  that the module docstring calls unaffected.
\<close>

theorem C2_deep_nesting_uncaught:
  "os_environ deep_nesting_inactive ''CLAUDE_PIPELINE_AGENT'' = None
   \<and> sys_stdin deep_nesting_inactive = Unloadable True ''RecursionError''
   \<and> is_json_document (sys_stdin deep_nesting_inactive)
   \<and> main deep_nesting_inactive =
       \<lparr>ending = Uncaught (OtherError ''RecursionError''), stdout = [], spawned = []\<rparr>
   \<and> exit_code (ending (main deep_nesting_inactive)) = 1"
  by (simp add: main_def deep_nesting_inactive_def scenario_A_def)

subsection \<open>Payloads that are JSON documents but not objects\<close>

text \<open>
  With the agent mode on, a payload that is a JSON document but not an object ends the
  process with an uncaught \<^verbatim>\<open>AttributeError\<close>, before any status query.
\<close>

lemma non_object_payload_uncaught:
  assumes "get_env w ''CLAUDE_PIPELINE_AGENT'' [] \<noteq> []"
      and "sys_stdin w = Document input_data"
      and "\<forall>items. input_data \<noteq> JObject items"
  shows "main w =
           \<lparr>ending = Uncaught (AttributeError (type_name input_data) ''get''),
            stdout = [], spawned = []\<rparr>"
  using assms by (cases input_data) (simp_all add: main_def truthy_str_def)

text \<open>
  So does, after the status query, an exception of \<^verbatim>\<open>subprocess.run\<close> that
  \<^verbatim>\<open>run_command\<close> does not catch.
\<close>

lemma failed_child_uncaught:
  assumes "get_env w ''CLAUDE_PIPELINE_AGENT'' [] \<noteq> []"
      and "sys_stdin w = Document input_data"
      and "py_get input_data ''stop_hook_active'' (JBool False) = Inr active"
      and "\<not> truthy active"
      and "os_getcwd w = Some d"
      and "child w git_status_cmd 10 (get_env w ''CLAUDE_PROJECT_DIR'' d) = Failed c"
  shows "main w =
           \<lparr>ending = Uncaught (OtherError c), stdout = [],
            spawned = [(git_status_cmd, get_env w ''CLAUDE_PROJECT_DIR'' d)]\<rparr>"
  using assms
  by (simp add: main_def truthy_str_def run_command_def getcwd_def subprocess_run_def)

text \<open>
  C3. The claim: for every invocation and every payload the hook ends with exit code 0 and
  never lets a failure escape to the host. The code at the invocation \<open>list_payload\<close>
  (agent mode on, payload \<^verbatim>\<open>[]\<close>): \<^verbatim>\<open>json.load\<close> returns a list,
  \<^verbatim>\<open>input_data.get\<close> raises \<^verbatim>\<open>AttributeError\<close>, nothing catches it, and
  the interpreter exits with code 1.
\<close>

theorem C3_list_payload_uncaught:
  "get_env list_payload ''CLAUDE_PIPELINE_AGENT'' [] \<noteq> []
   \<and> sys_stdin list_payload = Document (JArray [])
   \<and> main list_payload =
       \<lparr>ending = Uncaught (AttributeError ''list'' ''get''), stdout = [], spawned = []\<rparr>
   \<and> exit_code (ending (main list_payload)) = 1"
  by (simp add: main_def get_env_def truthy_str_def list_payload_def scenario_D_def)

subsection \<open>The re-entrancy guard\<close>

text \<open>
  C4. Whenever the agent-mode variable is non-empty and the payload is an object whose
  \<^verbatim>\<open>stop_hook_active\<close> is true (or any other truthy value), the hook exits with
  status 0 and prints nothing; this holds whatever the current directory and the child
  process would do (\<open>d\<close> and \<open>c\<close> are arbitrary), and no child process is started.
\<close>

theorem C4_reentrant_allows:
  assumes "get_env w ''CLAUDE_PIPELINE_AGENT'' [] \<noteq> []"
      and "sys_stdin w = Document (JObject items)"
      and "map_of items ''stop_hook_active'' = Some active"
      and "truthy active"
  shows "main (w\<lparr>os_getcwd := d, child := c\<rparr>)
           = \<lparr>ending = Exit 0, stdout = [], spawned = []\<rparr>"
  using assms by (simp add: main_def get_env_def truthy_str_def)

theorem C4_reentrant_allows_witness:
  "get_env scenario_B ''CLAUDE_PIPELINE_AGENT'' [] \<noteq> []
   \<and> sys_stdin scenario_B = Document (JObject [(''stop_hook_active'', JBool True)])
   \<and> main scenario_B = \<lparr>ending = Exit 0, stdout = [], spawned = []\<rparr>
   \<and> main (scenario_B\<lparr>os_getcwd := None, child := (\<lambda>cmd timeout cwd. TimedOut)\<rparr>)
        = \<lparr>ending = Exit 0, stdout = [], spawned = []\<rparr>"
  using C4_reentrant_allows
      [where w = scenario_B and items = "[(''stop_hook_active'', JBool True)]"
         and active = "JBool True" and d = "os_getcwd scenario_B" and c = "child scenario_B"]
    C4_reentrant_allows
      [where w = scenario_B and items = "[(''stop_hook_active'', JBool True)]"
         and active = "JBool True" and d = None and c = "\<lambda>cmd timeout cwd. TimedOut"]
  by (simp add: scenario_B_def get_env_def)

subsection \<open>The repository state check\<close>

text \<open>
  The text \<^verbatim>\<open>run_command\<close> returns is the standard output of the status command
  with leading and trailing white space stripped. A command that succeeds having printed
  white space only is taken for a clean tree.
\<close>

lemma run_command_unstaged_change:
  "run_command unstaged_change git_status_cmd 10
     = (Inr (True, ''M file.txt''), [(git_status_cmd, ''/repo'')])"
  by (simp add: run_command_def getcwd_def subprocess_run_def get_env_def unstaged_change_def
      git_missing_def py_strip_def py_isspace_def)

lemma whitespace_only_success_allows:
  "child blank_line_success git_status_cmd 10 ''/repo'' = Completed 0 NL
   \<and> main blank_line_success =
       \<lparr>ending = Exit 0, stdout = [], spawned = [(git_status_cmd, ''/repo'')]\<rparr>"
  by (simp add: main_def run_command_def getcwd_def subprocess_run_def get_env_def
      truthy_str_def blank_line_success_def git_missing_def py_strip_def py_isspace_def)

text \<open>
  C5, as claimed: with the agent mode on and no re-entrancy, when the status query
  succeeds with a non-empty result, the hook prints a block decision whose reason contains
  the status text verbatim. At the invocation \<open>unstaged_change\<close> the query succeeds
  (return code 0) and prints what \<^verbatim>\<open>git status --porcelain\<close> prints for one
  unstaged modification: a space, \<^verbatim>\<open>M file.txt\<close> and a newline. The hook prints a
  block decision, and its reason contains neither that text nor its one line: the leading
  space, the first column of the porcelain format, is stripped.
\<close>

theorem C5_leading_space_counterexample:
  "get_env unstaged_change ''CLAUDE_PIPELINE_AGENT'' [] \<noteq> []
   \<and> sys_stdin unstaged_change = Document (JObject [])
   \<and> child unstaged_change git_status_cmd 10 ''/repo'' = Completed 0 ('' M file.txt'' @ NL)
   \<and> fst (run_command unstaged_change git_status_cmd 10) = Inr (True, ''M file.txt'')
   \<and> read_payload (stdout (main unstaged_change))
       = Some [(''decision'', ''block''), (''reason'', prompt ''M file.txt'' ''default'')]
   \<and> \<not> sublist ('' M file.txt'' @ NL) (prompt ''M file.txt'' ''default'')
   \<and> \<not> sublist '' M file.txt'' (prompt ''M file.txt'' ''default'')"
proof -
  have a: "get_env unstaged_change ''CLAUDE_PIPELINE_AGENT'' [] \<noteq> []"
    by (simp add: get_env_def unstaged_change_def git_missing_def)
  have s: "sys_stdin unstaged_change = Document (JObject [])"
    by (simp add: unstaged_change_def git_missing_def)
  have c: "child unstaged_change git_status_cmd 10 ''/repo'' = Completed 0 ('' M file.txt'' @ NL)"
    by (simp add: unstaged_change_def)
  have n: "get_env unstaged_change ''CLAUDE_PIPELINE_SESSION'' ''default'' = ''default''"
    by (simp add: get_env_def unstaged_change_def git_missing_def)
  have "main unstaged_change =
          \<lparr>ending = Exit 0,
           stdout =
             json_dumps
               [(''decision'', ''block''), (''reason'', prompt ''M file.txt'' ''default'')] @ NL,
           spawned = [(git_status_cmd, ''/repo'')]\<rparr>"
    using main_past_guards [OF a s _ _ run_command_unstaged_change] n by simp
  then have p: "read_payload (stdout (main unstaged_change))
                  = Some [(''decision'', ''block''), (''reason'', prompt ''M file.txt'' ''default'')]"
    by (simp only: outcome.simps read_payload_json_dumps)
  have x: "\<not> sublist '' M file.txt'' (prompt ''M file.txt'' ''default'')"
    by (simp add: prompt_def sublist_Cons_right)
  have y: "\<not> sublist ('' M file.txt'' @ NL) (prompt ''M file.txt'' ''default'')"
    using x sublist_append_rightI sublist_order.order_trans by blast
  from a s c p x y run_command_unstaged_change show ?thesis
    by simp
qed

text \<open>
  C5, amended: whenever the agent-mode variable is non-empty, the payload is an object
  whose \<^verbatim>\<open>stop_hook_active\<close> is missing or falsy, and the status query succeeds
  (return code 0) with output that is not empty once leading and trailing white space is
  stripped, the hook exits with status 0 after printing one line that reads back as the
  JSON object with \<^verbatim>\<open>decision\<close> equal to \<^verbatim>\<open>block\<close> and \<^verbatim>\<open>reason\<close>
  equal to the prompt; the prompt contains the stripped status text as it is, and contains
  \<^verbatim>\<open>progress-<session>.txt\<close>, where the session name is the value of
  \<^verbatim>\<open>CLAUDE_PIPELINE_SESSION\<close>, or \<^verbatim>\<open>default\<close> when that variable is unset.
\<close>

theorem C5_stripped_status_blocks:
  assumes "get_env w ''CLAUDE_PIPELINE_AGENT'' [] \<noteq> []"
      and "sys_stdin w = Document input_data"
      and "py_get input_data ''stop_hook_active'' (JBool False) = Inr active"
      and "\<not> truthy active"
      and "os_getcwd w = Some d"
      and "child w git_status_cmd 10 (get_env w ''CLAUDE_PROJECT_DIR'' d) = Completed 0 out"
      and "py_strip out \<noteq> []"
      and "session_name =
             (case os_environ w ''CLAUDE_PIPELINE_SESSION'' of
                None \<Rightarrow> ''default'' | Some name \<Rightarrow> name)"
  shows "ending (main w) = Exit 0
         \<and> read_payload (stdout (main w)) =
             Some [(''decision'', ''block''), (''reason'', prompt (py_strip out) session_name)]
         \<and> sublist (py_strip out) (prompt (py_strip out) session_name)
         \<and> sublist (''progress-'' @ session_name @ ''.txt'') (prompt (py_strip out) session_name)"
proof -
  have "run_command w git_status_cmd 10 =
          (Inr (True, py_strip out), [(git_status_cmd, get_env w ''CLAUDE_PROJECT_DIR'' d)])"
    using assms(5,6) by (simp add: run_command_def getcwd_def subprocess_run_def)
  with assms(1-4,7)
  have "main w =
          \<lparr>ending = Exit 0,
           stdout =
             json_dumps
               [(''decision'', ''block''),
                (''reason'',
                 prompt (py_strip out) (get_env w ''CLAUDE_PIPELINE_SESSION'' ''default''))]
             @ NL,
           spawned = [(git_status_cmd, get_env w ''CLAUDE_PROJECT_DIR'' d)]\<rparr>"
    by (simp add: main_past_guards)
  moreover have "get_env w ''CLAUDE_PIPELINE_SESSION'' ''default'' = session_name"
    using assms(8) by (simp add: get_env_def)
  ultimately have "ending (main w) = Exit 0"
    and "stdout (main w) =
           json_dumps
             [(''decision'', ''block''), (''reason'', prompt (py_strip out) session_name)] @ NL"
    by simp_all
  then have "ending (main w) = Exit 0"
    and "read_payload (stdout (main w)) =
           Some [(''decision'', ''block''), (''reason'', prompt (py_strip out) session_name)]"
    by (simp_all only: read_payload_json_dumps)
  with status_in_prompt progress_file_in_prompt show ?thesis
    by blast
qed

theorem C5_stripped_status_blocks_witness:
  "get_env unstaged_change ''CLAUDE_PIPELINE_AGENT'' [] \<noteq> []
   \<and> sys_stdin unstaged_change = Document (JObject [])
   \<and> os_getcwd unstaged_change = Some ''/repo''
   \<and> child unstaged_change git_status_cmd 10
         (get_env unstaged_change ''CLAUDE_PROJECT_DIR'' ''/repo'')
       = Completed 0 ('' M file.txt'' @ NL)
   \<and> py_strip ('' M file.txt'' @ NL) = ''M file.txt''
   \<and> os_environ unstaged_change ''CLAUDE_PIPELINE_SESSION'' = None
   \<and> ending (main unstaged_change) = Exit 0
   \<and> read_payload (stdout (main unstaged_change)) =
       Some [(''decision'', ''block''), (''reason'', prompt ''M file.txt'' ''default'')]
   \<and> sublist ''M file.txt'' (prompt ''M file.txt'' ''default'')
   \<and> sublist (''progress-'' @ ''default'' @ ''.txt'') (prompt ''M file.txt'' ''default'')"
proof -
  have a: "get_env unstaged_change ''CLAUDE_PIPELINE_AGENT'' [] \<noteq> []"
    by (simp add: get_env_def unstaged_change_def git_missing_def)
  have s: "sys_stdin unstaged_change = Document (JObject [])"
    by (simp add: unstaged_change_def git_missing_def)
  have g: "py_get (JObject []) ''stop_hook_active'' (JBool False) = Inr (JBool False)"
    by simp
  have t: "\<not> truthy (JBool False)"
    by simp
  have d: "os_getcwd unstaged_change = Some ''/repo''"
    by (simp add: unstaged_change_def git_missing_def)
  have c: "child unstaged_change git_status_cmd 10
             (get_env unstaged_change ''CLAUDE_PROJECT_DIR'' ''/repo'')
           = Completed 0 ('' M file.txt'' @ NL)"
    by (simp add: unstaged_change_def)
  have p: "py_strip ('' M file.txt'' @ NL) = ''M file.txt''"
    by (simp add: py_strip_def py_isspace_def)
  have n: "py_strip ('' M file.txt'' @ NL) \<noteq> []"
    by (simp only: p) simp
  have v: "os_environ unstaged_change ''CLAUDE_PIPELINE_SESSION'' = None"
    by (simp add: unstaged_change_def git_missing_def)
  have e: "''default'' =
             (case os_environ unstaged_change ''CLAUDE_PIPELINE_SESSION'' of
                None \<Rightarrow> ''default'' | Some name \<Rightarrow> name)"
    by (simp add: v)
  from C5_stripped_status_blocks [OF a s g t d c n e]
  have "ending (main unstaged_change) = Exit 0
        \<and> read_payload (stdout (main unstaged_change)) =
            Some [(''decision'', ''block''), (''reason'', prompt ''M file.txt'' ''default'')]
        \<and> sublist ''M file.txt'' (prompt ''M file.txt'' ''default'')
        \<and> sublist (''progress-'' @ ''default'' @ ''.txt'') (prompt ''M file.txt'' ''default'')"
    by (simp only: p)
  with a s d c p v show ?thesis
    by blast
qed

text \<open>
  C6. Whenever the agent-mode variable is non-empty, the payload is an object whose
  \<^verbatim>\<open>stop_hook_active\<close> is missing or falsy, and the status query succeeds with the
  empty text (a clean working tree), the hook exits with status 0 and prints nothing.
\<close>

theorem C6_clean_tree_allows:
  assumes "get_env w ''CLAUDE_PIPELINE_AGENT'' [] \<noteq> []"
      and "sys_stdin w = Document input_data"
      and "py_get input_data ''stop_hook_active'' (JBool False) = Inr active"
      and "\<not> truthy active"
      and "fst (run_command w git_status_cmd 10) = Inr (True, [])"
  shows "ending (main w) = Exit 0 \<and> stdout (main w) = []"
proof -
  obtain procs where "run_command w git_status_cmd 10 = (Inr (True, []), procs)"
    using assms(5) by (cases "run_command w git_status_cmd 10") simp
  with assms(1-4) show ?thesis
    by (simp add: main_past_guards)
qed

theorem C6_clean_tree_allows_witness:
  "get_env scenario_C ''CLAUDE_PIPELINE_AGENT'' [] \<noteq> []
   \<and> sys_stdin scenario_C = Document (JObject [(''stop_hook_active'', JBool False)])
   \<and> fst (run_command scenario_C git_status_cmd 10) = Inr (True, [])
   \<and> ending (main scenario_C) = Exit 0 \<and> stdout (main scenario_C) = []"
proof -
  have a: "get_env scenario_C ''CLAUDE_PIPELINE_AGENT'' [] \<noteq> []"
    by (simp add: get_env_def scenario_C_def)
  have s: "sys_stdin scenario_C = Document (JObject [(''stop_hook_active'', JBool False)])"
    by (simp add: scenario_C_def)
  have g: "py_get (JObject [(''stop_hook_active'', JBool False)]) ''stop_hook_active'' (JBool False)
             = Inr (JBool False)"
    by simp
  have t: "\<not> truthy (JBool False)"
    by simp
  have r: "fst (run_command scenario_C git_status_cmd 10) = Inr (True, [])"
    by (simp add: run_command_scenario_C)
  from C6_clean_tree_allows [OF a s g t r] a s r show ?thesis
    by blast
qed

subsection \<open>Determinism\<close>

text \<open>
  C7. Two invocations with the same environment variables, the same payload on standard
  input and the same result of the status query (the flag and text that
  \<^verbatim>\<open>run_command\<close> returns, or the exception it lets through) end the same way and
  print the same text, whatever else differs between them (the current directory, the
  raw output of the child process).
\<close>

theorem C7_same_inputs_same_verdict:
  assumes "os_environ w = os_environ w'"
      and "sys_stdin w = sys_stdin w'"
      and "fst (run_command w git_status_cmd 10) = fst (run_command w' git_status_cmd 10)"
  shows "ending (main w) = ending (main w') \<and> stdout (main w) = stdout (main w')"
proof -
  obtain r procs procs' where
    "run_command w git_status_cmd 10 = (r, procs)" "run_command w' git_status_cmd 10 = (r, procs')"
    using assms(3)
    by (cases "run_command w git_status_cmd 10"; cases "run_command w' git_status_cmd 10") simp
  with assms(1,2) show ?thesis
    by (simp add: main_def get_env_def split: sum.split exn.split prod.split)
qed

theorem C7_same_inputs_same_verdict_witness:
  "os_environ scenario_D = os_environ scenario_D_elsewhere
   \<and> sys_stdin scenario_D = sys_stdin scenario_D_elsewhere
   \<and> fst (run_command scenario_D git_status_cmd 10)
       = fst (run_command scenario_D_elsewhere git_status_cmd 10)
   \<and> os_getcwd scenario_D \<noteq> os_getcwd scenario_D_elsewhere
   \<and> ending (main scenario_D) = ending (main scenario_D_elsewhere)
   \<and> stdout (main scenario_D) = stdout (main scenario_D_elsewhere)"
proof -
  have e: "os_environ scenario_D = os_environ scenario_D_elsewhere"
    by (simp add: scenario_D_elsewhere_def)
  have s: "sys_stdin scenario_D = sys_stdin scenario_D_elsewhere"
    by (simp add: scenario_D_elsewhere_def)
  have r: "fst (run_command scenario_D git_status_cmd 10)
             = fst (run_command scenario_D_elsewhere git_status_cmd 10)"
    by (simp add: run_command_scenario_D run_command_scenario_D_elsewhere)
  have d: "os_getcwd scenario_D \<noteq> os_getcwd scenario_D_elsewhere"
    by (simp add: scenario_D_elsewhere_def scenario_D_def)
  from C7_same_inputs_same_verdict [OF e s r] e s r d show ?thesis
    by blast
qed

subsection \<open>Payloads that are not JSON\<close>

text \<open>
  Text that \<^verbatim>\<open>json.load\<close> rejects with \<^verbatim>\<open>JSONDecodeError\<close> makes the hook
  exit with status 0, print nothing and start no child process; the environment, the
  current directory and the child process play no part (\<open>e\<close>, \<open>d\<close> and \<open>c\<close>
  are arbitrary).
\<close>

lemma rejected_payload_allows:
  assumes "sys_stdin w = Malformed"
  shows "main (w\<lparr>os_environ := e, os_getcwd := d, child := c\<rparr>)
           = \<lparr>ending = Exit 0, stdout = [], spawned = []\<rparr>"
  using assms by (simp add: main_def)

lemma garbled_stdin_allows:
  "sys_stdin garbled_stdin = Malformed
   \<and> main garbled_stdin = \<lparr>ending = Exit 0, stdout = [], spawned = []\<rparr>"
  using rejected_payload_allows
    [where w = garbled_stdin and e = "os_environ garbled_stdin"
       and d = "os_getcwd garbled_stdin" and c = "child garbled_stdin"]
  by (simp add: garbled_stdin_def)

text \<open>
  C8. The claim: whenever the input on standard input is not parseable as JSON, the hook
  exits with status 0 and prints nothing. The code at the invocation
  \<open>unclosed_nesting\<close> (payload of opening brackets only, more than the recursion
  limit, which is no JSON document): \<^verbatim>\<open>json.load\<close> raises
  \<^verbatim>\<open>RecursionError\<close>, the handler is for \<^verbatim>\<open>JSONDecodeError\<close> only, and the
  interpreter exits with code 1.
\<close>

theorem C8_unclosed_nesting_uncaught:
  "sys_stdin unclosed_nesting = Unloadable False ''RecursionError''
   \<and> \<not> is_json_document (sys_stdin unclosed_nesting)
   \<and> main unclosed_nesting =
       \<lparr>ending = Uncaught (OtherError ''RecursionError''), stdout = [], spawned = []\<rparr>
   \<and> exit_code (ending (main unclosed_nesting)) = 1"
  by (simp add: main_def unclosed_nesting_def scenario_D_def)

subsection \<open>The exit status of the status command\<close>

text \<open>
  C9, as claimed: with the agent mode on and no re-entrancy, any non-empty text printed by
  the status command yields a block decision, also when the command reports failure. At
  the invocation \<open>blank_line_failure\<close> the command exits with return code 1 after
  printing one newline: the printed text is not empty, \<^verbatim>\<open>strip()\<close> makes it
  empty, and the hook exits with status 0 and prints nothing.
\<close>

theorem C9_blank_output_counterexample:
  "get_env blank_line_failure ''CLAUDE_PIPELINE_AGENT'' [] \<noteq> []
   \<and> sys_stdin blank_line_failure = Document (JObject [])
   \<and> child blank_line_failure git_status_cmd 10 ''/repo'' = Completed 1 NL
   \<and> NL \<noteq> []
   \<and> main blank_line_failure =
       \<lparr>ending = Exit 0, stdout = [], spawned = [(git_status_cmd, ''/repo'')]\<rparr>"
  by (simp add: main_def run_command_def getcwd_def subprocess_run_def get_env_def
      truthy_str_def blank_line_failure_def git_missing_def py_strip_def py_isspace_def)

text \<open>
  C9, amended: with the agent mode on and no re-entrancy, when the status command runs to
  its end, the outcome depends only on the text it wrote to standard output with leading
  and trailing whitespace stripped, never on its return code: the hook exits with status 0
  and prints nothing when the stripped text is empty, and prints the block decision
  carrying the stripped text when it is not, whatever the return code.
\<close>

theorem C9_verdict_from_stripped_output:
  assumes "get_env w ''CLAUDE_PIPELINE_AGENT'' [] \<noteq> []"
      and "sys_stdin w = Document input_data"
      and "py_get input_data ''stop_hook_active'' (JBool False) = Inr active"
      and "\<not> truthy active"
      and "os_getcwd w = Some d"
      and "child w git_status_cmd 10 (get_env w ''CLAUDE_PROJECT_DIR'' d) = Completed returncode out"
  shows "ending (main w) = Exit 0
         \<and> stdout (main w) =
             (if py_strip out = [] then []
              else json_dumps
                     [(''decision'', ''block''),
                      (''reason'',
                       prompt (py_strip out) (get_env w ''CLAUDE_PIPELINE_SESSION'' ''default''))]
                   @ NL)"
proof -
  have "run_command w git_status_cmd 10 =
          (Inr (returncode = 0, py_strip out),
           [(git_status_cmd, get_env w ''CLAUDE_PROJECT_DIR'' d)])"
    using assms(5,6) by (simp add: run_command_def getcwd_def subprocess_run_def)
  with assms(1-4) show ?thesis
    by (simp add: main_past_guards)
qed

theorem C9_verdict_from_stripped_output_witness:
  "get_env dirty_failure ''CLAUDE_PIPELINE_AGENT'' [] \<noteq> []
   \<and> sys_stdin dirty_failure = Document (JObject [])
   \<and> os_getcwd dirty_failure = Some ''/repo''
   \<and> child dirty_failure git_status_cmd 10 (get_env dirty_failure ''CLAUDE_PROJECT_DIR'' ''/repo'')
       = Completed 128 ('' M file.txt'' @ NL)
   \<and> py_strip ('' M file.txt'' @ NL) = ''M file.txt''
   \<and> ending (main dirty_failure) = Exit 0
   \<and> stdout (main dirty_failure) =
       json_dumps [(''decision'', ''block''), (''reason'', prompt ''M file.txt'' ''default'')] @ NL"
proof -
  have a: "get_env dirty_failure ''CLAUDE_PIPELINE_AGENT'' [] \<noteq> []"
    by (simp add: get_env_def dirty_failure_def git_missing_def)
  have s: "sys_stdin dirty_failure = Document (JObject [])"
    by (simp add: dirty_failure_def git_missing_def)
  have g: "py_get (JObject []) ''stop_hook_active'' (JBool False) = Inr (JBool False)"
    by simp
  have t: "\<not> truthy (JBool False)"
    by simp
  have d: "os_getcwd dirty_failure = Some ''/repo''"
    by (simp add: dirty_failure_def git_missing_def)
  have c: "child dirty_failure git_status_cmd 10
             (get_env dirty_failure ''CLAUDE_PROJECT_DIR'' ''/repo'')
           = Completed 128 ('' M file.txt'' @ NL)"
    by (simp add: dirty_failure_def)
  have p: "py_strip ('' M file.txt'' @ NL) = ''M file.txt''"
    by (simp add: py_strip_def py_isspace_def)
  have n: "get_env dirty_failure ''CLAUDE_PIPELINE_SESSION'' ''default'' = ''default''"
    by (simp add: get_env_def dirty_failure_def git_missing_def)
  from C9_verdict_from_stripped_output [OF a s g t d c] a s d c p n show ?thesis
    by simp
qed

subsection \<open>What counts as activation\<close>

text \<open>
  C10. Activation is decided by whether the value of \<^verbatim>\<open>CLAUDE_PIPELINE_AGENT\<close> is
  the empty string, and by nothing else about it. Take any invocation where the hook, once
  activated, blocks (the payload is an object whose \<^verbatim>\<open>stop_hook_active\<close> is
  missing or falsy, and the status query returns a non-empty text): the hook exits
  silently without a status query exactly when the variable is unset or empty, and prints
  the block decision for every other value, \<^verbatim>\<open>0\<close> and \<^verbatim>\<open>false\<close> included.
\<close>

theorem C10_activation_is_nonemptiness:
  assumes "sys_stdin w = Document input_data"
      and "py_get input_data ''stop_hook_active'' (JBool False) = Inr active"
      and "\<not> truthy active"
      and "run_command w git_status_cmd 10 = (Inr (ok, git_status), procs)"
      and "git_status \<noteq> []"
  shows "main w =
           (if os_environ w ''CLAUDE_PIPELINE_AGENT'' = None
                 \<or> os_environ w ''CLAUDE_PIPELINE_AGENT'' = Some []
            then \<lparr>ending = Exit 0, stdout = [], spawned = []\<rparr>
            else \<lparr>ending = Exit 0,
                  stdout =
                    json_dumps
                      [(''decision'', ''block''),
                       (''reason'',
                        prompt git_status (get_env w ''CLAUDE_PIPELINE_SESSION'' ''default''))]
                    @ NL,
                  spawned = procs\<rparr>)"
proof (cases "os_environ w ''CLAUDE_PIPELINE_AGENT'' = None
                \<or> os_environ w ''CLAUDE_PIPELINE_AGENT'' = Some []")
  case True
  then have "\<not> truthy_str (get_env w ''CLAUDE_PIPELINE_AGENT'' [])"
    by (auto simp: get_env_def truthy_str_def)
  with True assms(1) show ?thesis
    by (simp add: main_def)
next
  case False
  then have "get_env w ''CLAUDE_PIPELINE_AGENT'' [] \<noteq> []"
    by (auto simp: get_env_def)
  with False assms show ?thesis
    by (simp add: main_past_guards)
qed

theorem C10_activation_is_nonemptiness_witness:
  "os_environ agent_flag_zero ''CLAUDE_PIPELINE_AGENT'' = Some ''0''
   \<and> os_environ agent_flag_false ''CLAUDE_PIPELINE_AGENT'' = Some ''false''
   \<and> main agent_flag_zero =
       \<lparr>ending = Exit 0,
        stdout =
          json_dumps [(''decision'', ''block''), (''reason'', prompt ''M file.txt'' ''alpha'')] @ NL,
        spawned = [(git_status_cmd, ''/repo'')]\<rparr>
   \<and> main agent_flag_false = main agent_flag_zero"
proof -
  have g: "py_get (JObject []) ''stop_hook_active'' (JBool False) = Inr (JBool False)"
    by simp
  have t: "\<not> truthy (JBool False)"
    by simp
  have n: "''M file.txt'' \<noteq> []"
    by simp
  have s0: "sys_stdin agent_flag_zero = Document (JObject [])"
    by (simp add: agent_flag_zero_def scenario_D_def)
  have e0: "os_environ agent_flag_zero ''CLAUDE_PIPELINE_AGENT'' = Some ''0''"
    by (simp add: agent_flag_zero_def)
  have n0: "get_env agent_flag_zero ''CLAUDE_PIPELINE_SESSION'' ''default'' = ''alpha''"
    by (simp add: get_env_def agent_flag_zero_def)
  have sf: "sys_stdin agent_flag_false = Document (JObject [])"
    by (simp add: agent_flag_false_def scenario_D_def)
  have ef: "os_environ agent_flag_false ''CLAUDE_PIPELINE_AGENT'' = Some ''false''"
    by (simp add: agent_flag_false_def)
  have nf: "get_env agent_flag_false ''CLAUDE_PIPELINE_SESSION'' ''default'' = ''alpha''"
    by (simp add: get_env_def agent_flag_false_def)
  from C10_activation_is_nonemptiness [OF s0 g t run_command_agent_flag_zero n]
    C10_activation_is_nonemptiness [OF sf g t run_command_agent_flag_false n]
    e0 ef n0 nf
  show ?thesis
    by simp
qed

end
